theory Spec2Isabelle
  imports Main "HOL-Library.Sublist"
begin

section \<open>Values and library functions used by Checklist.js\<close>

text \<open>
  Option values, labels and style values are JavaScript strings or numbers
  (\<^verbatim>\<open>PropTypes.oneOfType([PropTypes.string, PropTypes.number])\<close>). The component
  never computes with a number: it compares values and interpolates them into an element id.
  Numbers are modelled as integers; ramda compares primitives by identity of the value,
  which is HOL equality on this type, and a string never equals a number.
\<close>

datatype jsvalue = Str string | Num int

type_synonym style_object = "string \<rightharpoonup> jsvalue"

datatype error = TypeError

subsection \<open>Template literals\<close>

text \<open>
  A template literal is kept as its parts, in the order of the source: the characters
  written out and the values interpolated. JavaScript turns an interpolated value into
  characters with its own \<^verbatim>\<open>ToString\<close>: a string stays as it is, a number is printed by
  the language's number formatting, which is not defined here. The string the literal
  denotes is the concatenation of its parts so converted.
\<close>

datatype template_part = Chars string | Interpolated jsvalue

type_synonym template_literal = "template_part list"

subsection \<open>ramda: \<^verbatim>\<open>contains\<close>, \<^verbatim>\<open>without\<close>, \<^verbatim>\<open>append\<close>\<close>

text \<open>
  \<^verbatim>\<open>contains(a, list)\<close> is \<^verbatim>\<open>_indexOf(list, a, 0) >= 0\<close>: the index of the first element
  equal to \<open>a\<close>, or \<open>-1\<close>. \<^verbatim>\<open>without(xs, list)\<close> is
  \<^verbatim>\<open>reject(flip(_includes)(xs), list)\<close>: a new array of the elements of \<open>list\<close> that are
  not contained in \<open>xs\<close>. \<^verbatim>\<open>append(el, list)\<close> is \<^verbatim>\<open>_concat(list, [el])\<close>.
\<close>

fun indexOf :: "'a list \<Rightarrow> 'a \<Rightarrow> int \<Rightarrow> int" where
  "indexOf [] a idx = - 1"
| "indexOf (x # xs) a idx = (if x = a then idx else indexOf xs a (idx + 1))"

definition contains :: "'a \<Rightarrow> 'a list \<Rightarrow> bool" where
  "contains a list = (0 \<le> indexOf list a 0)"

definition reject :: "('a \<Rightarrow> bool) \<Rightarrow> 'a list \<Rightarrow> 'a list" where
  "reject pred list = filter (\<lambda>x. \<not> pred x) list"

definition without :: "'a list \<Rightarrow> 'a list \<Rightarrow> 'a list" where
  "without xs list = reject (\<lambda>x. contains x xs) list"

definition append_ramda :: "'a \<Rightarrow> 'a list \<Rightarrow> 'a list" where
  "append_ramda el list = list @ [el]"

subsection \<open>classnames\<close>

text \<open>
  \<^verbatim>\<open>classNames(...)\<close> skips every falsy argument (\<^verbatim>\<open>false\<close>, \<^verbatim>\<open>undefined\<close>, the empty
  string) and joins the remaining strings with one space. An argument is \<open>None\<close> for
  \<^verbatim>\<open>false\<close> or \<^verbatim>\<open>undefined\<close> and \<open>Some s\<close> for a string.
\<close>

definition truthy_classes :: "string option \<Rightarrow> string list" where
  "truthy_classes a = (case a of None \<Rightarrow> [] | Some s \<Rightarrow> (if s = [] then [] else [s]))"

fun join_space :: "string list \<Rightarrow> string" where
  "join_space [] = []"
| "join_space [c] = c"
| "join_space (c # cs) = c @ CHR '' '' # join_space cs"

definition classNames :: "string option list \<Rightarrow> string" where
  "classNames args = join_space (concat (map truthy_classes args))"

text \<open>\<^verbatim>\<open>flag && s\<close> for a boolean \<open>flag\<close>: \<^verbatim>\<open>false\<close> or the right operand.\<close>

definition and_class :: "bool \<Rightarrow> string option \<Rightarrow> string option" where
  "and_class flag s = (if flag then s else None)"

text \<open>\<^verbatim>\<open>Boolean(x)\<close> of an optional boolean: \<^verbatim>\<open>undefined\<close> is falsy.\<close>

definition Boolean :: "bool option \<Rightarrow> bool" where
  "Boolean x = (case x of None \<Rightarrow> False | Some b \<Rightarrow> b)"

text \<open>Object spread \<^verbatim>\<open>{...a, ...b}\<close>: the keys of \<open>b\<close> override those of \<open>a\<close>; spreading
  \<^verbatim>\<open>undefined\<close> adds nothing.\<close>

definition spread :: "style_object \<Rightarrow> style_object option \<Rightarrow> style_object" where
  "spread a b = (case b of None \<Rightarrow> a | Some b' \<Rightarrow> a ++ b')"

section \<open>The component's props and what it renders\<close>

text \<open>
  One entry of \<^verbatim>\<open>options\<close>: \<^verbatim>\<open>{label, value, disabled}\<close>; \<^verbatim>\<open>disabled\<close> is optional.
\<close>

record checklist_option =
  opt_label :: jsvalue
  opt_value :: jsvalue
  opt_disabled :: "bool option"

record loading_state_object =
  is_loading :: "bool option"
  prop_name :: "string option"
  component_name :: "string option"

text \<open>The argument of \<^verbatim>\<open>setProps\<close>: the object \<^verbatim>\<open>{value: newValue}\<close>.\<close>

record set_props_arg =
  new_value :: "jsvalue list"

text \<open>
  \<^verbatim>\<open>this.props\<close>, with the defaults of \<^verbatim>\<open>Checklist.defaultProps\<close> applied: a prop without
  a default is optional (\<open>None\<close> is \<^verbatim>\<open>undefined\<close>). \<^verbatim>\<open>setProps\<close> is the host's callback;
  \<open>'h\<close> is whatever it returns. The props \<^verbatim>\<open>id\<close>, \<^verbatim>\<open>value\<close>, \<^verbatim>\<open>style\<close>, \<^verbatim>\<open>key\<close> and
  \<^verbatim>\<open>switch\<close> carry the suffix \<open>_prop\<close>.
\<close>

record 'h props =
  id_prop :: "string option"
  options :: "checklist_option list"
  value_prop :: "jsvalue list"
  className :: "string option"
  style_prop :: "style_object option"
  key_prop :: "string option"
  inputStyle :: style_object
  inputClassName :: string
  labelStyle :: style_object
  labelCheckedStyle :: "style_object option"
  labelClassName :: string
  labelCheckedClassName :: "string option"
  setProps :: "(set_props_arg \<Rightarrow> 'h) option"
  inline :: "bool option"
  switch_prop :: "bool option"
  custom :: bool
  loading_state :: "loading_state_object option"

text \<open>The props handed to the \<^verbatim>\<open>CustomInput\<close> sub-component. \<open>ci_onChange\<close> is what
  activating the control does: the result of the handler, or the error it raises.\<close>

record 'h custom_input =
  ci_id :: template_literal
  ci_checked :: bool
  ci_className :: string
  ci_disabled :: bool
  ci_type :: string
  ci_label :: jsvalue
  ci_labelStyle :: style_object
  ci_labelClassName :: string
  ci_inline :: "bool option"
  ci_onChange :: "error + 'h"
  ci_key :: jsvalue

text \<open>The native row: a \<^verbatim>\<open>div\<close> holding an \<^verbatim>\<open>input\<close> and its \<^verbatim>\<open>label\<close>.\<close>

record 'h native_row =
  row_className :: string
  row_key :: jsvalue
  input_id :: template_literal
  input_checked :: bool
  input_className :: string
  input_disabled :: bool
  input_style :: style_object
  input_type :: string
  input_onChange :: "error + 'h"
  label_style :: style_object
  label_className :: string
  label_key :: jsvalue
  label_htmlFor :: template_literal
  label_children :: jsvalue

datatype 'h item = CustomInput "'h custom_input" | NativeRow "'h native_row"

text \<open>The root \<^verbatim>\<open>div\<close>. An attribute that is \<open>None\<close> is \<^verbatim>\<open>undefined\<close>: React omits it.
  \<open>div_key\<close> is the expression \<^verbatim>\<open>key={key}\<close> as written, for whatever \<^verbatim>\<open>this.props.key\<close>
  holds; the keys of the items are likewise the expressions \<^verbatim>\<open>key={option.value}\<close>.\<close>

record 'h container =
  div_id :: "string option"
  div_style :: "style_object option"
  div_className :: "string option"
  div_key :: "string option"
  data_dash_is_loading :: "bool option"
  children :: "'h item list"

subsection \<open>\<^verbatim>\<open>listItem\<close>\<close>

text \<open>A string is truthy when it is defined and not empty (\<^verbatim>\<open>id && custom\<close>, \<^verbatim>\<open>id || ...\<close>).\<close>

definition truthy_string :: "string option \<Rightarrow> bool" where
  "truthy_string s = (case s of None \<Rightarrow> False | Some t \<Rightarrow> t \<noteq> [])"

text \<open>\<^verbatim>\<open>${id}\<close> in a template literal, for the optional string \<^verbatim>\<open>id\<close>: \<^verbatim>\<open>undefined\<close>
  prints as its name.\<close>

definition template_string :: "string option \<Rightarrow> string" where
  "template_string s = (case s of None \<Rightarrow> ''undefined'' | Some t \<Rightarrow> t)"

text \<open>\<^verbatim>\<open>id || dflt\<close>: the left operand when it is truthy, the right one otherwise.\<close>

definition or_string :: "string option \<Rightarrow> string \<Rightarrow> string" where
  "or_string s dflt = (case s of None \<Rightarrow> dflt | Some t \<Rightarrow> (if t = [] then dflt else t))"

text \<open>
  The \<^verbatim>\<open>onChange\<close> closure; the source writes it out twice, once in each branch of
  \<^verbatim>\<open>listItem\<close>, with the same text. \<open>newValue\<close> is its local variable of that name.
  Calling \<^verbatim>\<open>setProps\<close> when the prop is \<^verbatim>\<open>undefined\<close> raises a TypeError.
\<close>

definition newValue :: "'h props \<Rightarrow> checklist_option \<Rightarrow> jsvalue list" where
  "newValue p option =
     (if contains (opt_value option) (value_prop p)
      then without [opt_value option] (value_prop p)
      else append_ramda (opt_value option) (value_prop p))"

definition onChange :: "'h props \<Rightarrow> checklist_option \<Rightarrow> error + 'h" where
  "onChange p option =
     (case setProps p of
        None \<Rightarrow> Inl TypeError
      | Some f \<Rightarrow> Inr (f \<lparr>new_value = newValue p option\<rparr>))"

definition listItem :: "'h props \<Rightarrow> checklist_option \<Rightarrow> 'h item" where
  "listItem p option =
     (let checked = contains (opt_value option) (value_prop p);
          mergedLabelStyle =
            (if checked then spread (labelStyle p) (labelCheckedStyle p) else labelStyle p)
      in if truthy_string (id_prop p) \<and> custom p then
           CustomInput
             \<lparr>ci_id = [Chars ''_'', Chars (template_string (id_prop p)), Chars ''-'',
                      Interpolated (opt_value option)],
              ci_checked = checked,
              ci_className = inputClassName p,
              ci_disabled = Boolean (opt_disabled option),
              ci_type = (if Boolean (switch_prop p) then ''switch'' else ''checkbox''),
              ci_label = opt_label option,
              ci_labelStyle = mergedLabelStyle,
              ci_labelClassName =
                classNames [Some (labelClassName p), and_class checked (labelCheckedClassName p)],
              ci_inline = inline p,
              ci_onChange = onChange p option,
              ci_key = opt_value option\<rparr>
         else
           (let inputId =
              [Chars ''_'', Chars (or_string (id_prop p) ''_dbcprivate_checklist''), Chars ''-'',
               Interpolated (opt_value option)]
            in NativeRow
                 \<lparr>row_className =
                    classNames [Some ''form-check'',
                                and_class (Boolean (inline p)) (Some ''form-check-inline'')],
                  row_key = opt_value option,
                  input_id = inputId,
                  input_checked = checked,
                  input_className = classNames [Some ''form-check-input'', Some (inputClassName p)],
                  input_disabled = Boolean (opt_disabled option),
                  input_style = inputStyle p,
                  input_type = ''checkbox'',
                  input_onChange = onChange p option,
                  label_style = mergedLabelStyle,
                  label_className =
                    classNames [Some ''form-check-label'', Some (labelClassName p),
                                and_class checked (labelCheckedClassName p)],
                  label_key = opt_value option,
                  label_htmlFor = inputId,
                  label_children = opt_label option\<rparr>))"

subsection \<open>\<^verbatim>\<open>render\<close>\<close>

text \<open>\<^verbatim>\<open>(loading_state && loading_state.is_loading) || undefined\<close>\<close>

definition loading_marker :: "loading_state_object option \<Rightarrow> bool option" where
  "loading_marker ls =
     (case ls of
        None \<Rightarrow> None
      | Some l \<Rightarrow> (if Boolean (is_loading l) then is_loading l else None))"

definition render :: "'h props \<Rightarrow> 'h container" where
  "render p =
     (let items = map (\<lambda>option. listItem p option) (options p)
      in \<lparr>div_id = id_prop p,
          div_style = style_prop p,
          div_className = className p,
          div_key = key_prop p,
          data_dash_is_loading = loading_marker (loading_state p),
          children = items\<rparr>)"

subsection \<open>Reading a rendered item\<close>

text \<open>What a rendered item shows, whichever of the two branches produced it.\<close>

fun is_custom_input :: "'h item \<Rightarrow> bool" where
  "is_custom_input (CustomInput c) = True"
| "is_custom_input (NativeRow r) = False"

fun is_native_row :: "'h item \<Rightarrow> bool" where
  "is_native_row (CustomInput c) = False"
| "is_native_row (NativeRow r) = True"

fun item_checked :: "'h item \<Rightarrow> bool" where
  "item_checked (CustomInput c) = ci_checked c"
| "item_checked (NativeRow r) = input_checked r"

fun item_disabled :: "'h item \<Rightarrow> bool" where
  "item_disabled (CustomInput c) = ci_disabled c"
| "item_disabled (NativeRow r) = input_disabled r"

fun item_onChange :: "'h item \<Rightarrow> error + 'h" where
  "item_onChange (CustomInput c) = ci_onChange c"
| "item_onChange (NativeRow r) = input_onChange r"

fun item_label_style :: "'h item \<Rightarrow> style_object" where
  "item_label_style (CustomInput c) = ci_labelStyle c"
| "item_label_style (NativeRow r) = label_style r"

fun item_label_className :: "'h item \<Rightarrow> string" where
  "item_label_className (CustomInput c) = ci_labelClassName c"
| "item_label_className (NativeRow r) = label_className r"

fun item_key :: "'h item \<Rightarrow> jsvalue" where
  "item_key (CustomInput c) = ci_key c"
| "item_key (NativeRow r) = row_key r"

fun item_label :: "'h item \<Rightarrow> jsvalue" where
  "item_label (CustomInput c) = ci_label c"
| "item_label (NativeRow r) = label_children r"

section \<open>The change handler on a store of arrays\<close>

text \<open>
  JavaScript arrays are objects held by reference. To say what the handler does to the
  array the host passed in, arrays live in a store: an address is an index into the list
  of all arrays allocated so far, and a new array gets the next index. \<open>None\<close> is the
  result for an address that is not in the store, which no JavaScript reference can be.
\<close>

type_synonym addr = nat

type_synonym store = "jsvalue list list"

definition deref :: "store \<Rightarrow> addr \<Rightarrow> jsvalue list option" where
  "deref s a = (if a < length s then Some (s ! a) else None)"

definition alloc :: "jsvalue list \<Rightarrow> store \<Rightarrow> addr \<times> store" where
  "alloc xs s = (length s, s @ [xs])"

text \<open>
  Modelled from the spec: ramda's \<^verbatim>\<open>without\<close> and \<^verbatim>\<open>append\<close> are not among the sources.
  The specification says that the component never mutates the selection array in place
  and always constructs a new sequence; so both functions read their argument arrays and
  allocate their result, and neither writes to an argument.
\<close>

definition without_store :: "addr \<Rightarrow> addr \<Rightarrow> store \<Rightarrow> (addr \<times> store) option" where
  "without_store xa la s =
     (case deref s xa of
        None \<Rightarrow> None
      | Some xs \<Rightarrow>
          (case deref s la of
             None \<Rightarrow> None
           | Some list \<Rightarrow> Some (alloc (without xs list) s)))"

definition append_store :: "jsvalue \<Rightarrow> addr \<Rightarrow> store \<Rightarrow> (addr \<times> store) option" where
  "append_store el la s =
     (case deref s la of
        None \<Rightarrow> None
      | Some list \<Rightarrow> Some (alloc (append_ramda el list) s))"

text \<open>
  The handler, for the option value \<open>v\<close> and the address \<open>va\<close> of \<^verbatim>\<open>this.props.value\<close>:
  the address it passes to \<^verbatim>\<open>setProps\<close> as \<^verbatim>\<open>value\<close>, and the store afterwards. The
  array literal \<^verbatim>\<open>[option.value]\<close> is an allocation of its own.
\<close>

definition onChange_store :: "jsvalue \<Rightarrow> addr \<Rightarrow> store \<Rightarrow> (addr \<times> store) option" where
  "onChange_store v va s =
     (case deref s va of
        None \<Rightarrow> None
      | Some list \<Rightarrow>
          (if contains v list
           then (case alloc [v] s of (xa, s1) \<Rightarrow> without_store xa va s1)
           else append_store v va s))"

section \<open>Example inputs\<close>

text \<open>\<^verbatim>\<open>Checklist.defaultProps\<close>, every other prop \<^verbatim>\<open>undefined\<close>.\<close>

definition default_props :: "(jsvalue list) props" where
  "default_props =
     \<lparr>id_prop = None, options = [], value_prop = [], className = None, style_prop = None,
      key_prop = None, inputStyle = Map.empty, inputClassName = [], labelStyle = Map.empty,
      labelCheckedStyle = None, labelClassName = [], labelCheckedClassName = None,
      setProps = None, inline = None, switch_prop = None, custom = True,
      loading_state = None\<rparr>"

definition option_A :: checklist_option where
  "option_A = \<lparr>opt_label = Str ''A'', opt_value = Num 1, opt_disabled = None\<rparr>"

definition option_B :: checklist_option where
  "option_B = \<lparr>opt_label = Str ''B'', opt_value = Num 2, opt_disabled = None\<rparr>"

definition option_C :: checklist_option where
  "option_C = \<lparr>opt_label = Str ''C'', opt_value = Str ''c'', opt_disabled = Some True\<rparr>"

text \<open>A host whose \<^verbatim>\<open>setProps\<close> hands back the selection it was given.\<close>

definition example_props :: "(jsvalue list) props" where
  "example_props =
     default_props
       \<lparr>options := [option_A, option_B], value_prop := [Num 1], setProps := Some new_value\<rparr>"

definition example_props_custom :: "(jsvalue list) props" where
  "example_props_custom = example_props \<lparr>id_prop := Some ''checklist''\<rparr>"

text \<open>Three options, of which B and A are selected, in that order.\<close>

definition two_selected_props :: "(jsvalue list) props" where
  "two_selected_props =
     example_props \<lparr>options := [option_A, option_B, option_C], value_prop := [Num 2, Num 1]\<rparr>"

text \<open>Label classes and styles set, no identifier: the native branch.\<close>

definition styled_props :: "(jsvalue list) props" where
  "styled_props =
     example_props
       \<lparr>labelStyle := [''color'' \<mapsto> Str ''black'', ''margin'' \<mapsto> Num 0],
        labelCheckedStyle := Some [''color'' \<mapsto> Str ''green''],
        labelClassName := ''lbl'',
        labelCheckedClassName := Some ''on''\<rparr>"

definition styled_props_custom :: "(jsvalue list) props" where
  "styled_props_custom = styled_props \<lparr>id_prop := Some ''checklist''\<rparr>"

definition loading_props :: "(jsvalue list) props" where
  "loading_props =
     example_props
       \<lparr>loading_state :=
          Some \<lparr>is_loading = Some True, prop_name = Some ''value'', component_name = None\<rparr>\<rparr>"

definition idle_props :: "(jsvalue list) props" where
  "idle_props =
     example_props
       \<lparr>loading_state :=
          Some \<lparr>is_loading = Some False, prop_name = None, component_name = None\<rparr>\<rparr>"

text \<open>A store with two arrays: some other array at address 0, the selection at address 1.\<close>

definition example_store :: store where
  "example_store = [[Str ''other''], [Num 1]]"

section \<open>Facts about the library functions\<close>

lemma indexOf_nonneg_iff: "0 \<le> idx \<Longrightarrow> (0 \<le> indexOf xs a idx) = (a \<in> set xs)"
  by (induction xs arbitrary: idx) auto

lemma contains_iff_member: "contains a xs = (a \<in> set xs)"
  by (simp add: contains_def indexOf_nonneg_iff)

lemma without_single: "without [v] xs = filter (\<lambda>x. x \<noteq> v) xs"
  by (simp add: without_def reject_def contains_iff_member)

lemma newValue_eq:
  "newValue p option =
     (if opt_value option \<in> set (value_prop p)
      then filter (\<lambda>x. x \<noteq> opt_value option) (value_prop p)
      else value_prop p @ [opt_value option])"
  by (simp add: newValue_def contains_iff_member without_single append_ramda_def)

lemma filter_neq_absent: "v \<notin> set xs \<Longrightarrow> filter (\<lambda>x. x \<noteq> v) xs = xs"
  by (induction xs) auto

lemma filter_neq_distinct: "distinct xs \<Longrightarrow> filter (\<lambda>x. x \<noteq> v) xs = remove1 v xs"
  by (induction xs) (auto simp add: filter_neq_absent)

section \<open>Facts about \<^verbatim>\<open>listItem\<close>, in both branches\<close>

lemma item_onChange_listItem: "item_onChange (listItem p option) = onChange p option"
  by (simp add: listItem_def Let_def)

lemma item_checked_listItem:
  "item_checked (listItem p option) = contains (opt_value option) (value_prop p)"
  by (simp add: listItem_def Let_def)

lemma item_disabled_listItem:
  "item_disabled (listItem p option) = Boolean (opt_disabled option)"
  by (simp add: listItem_def Let_def)

lemma item_key_listItem: "item_key (listItem p option) = opt_value option"
  by (simp add: listItem_def Let_def)

lemma item_label_listItem: "item_label (listItem p option) = opt_label option"
  by (simp add: listItem_def Let_def)

lemma is_custom_input_listItem:
  "is_custom_input (listItem p option) = (truthy_string (id_prop p) \<and> custom p)"
  by (simp add: listItem_def Let_def)

lemma is_native_row_listItem:
  "is_native_row (listItem p option) = (\<not> (truthy_string (id_prop p) \<and> custom p))"
  by (simp add: listItem_def Let_def)

lemma truthy_string_iff: "truthy_string s = (\<exists>t. s = Some t \<and> t \<noteq> [])"
  by (cases s) (simp_all add: truthy_string_def)

lemma item_label_style_listItem:
  "item_label_style (listItem p option) =
     (if contains (opt_value option) (value_prop p)
      then spread (labelStyle p) (labelCheckedStyle p) else labelStyle p)"
  by (simp add: listItem_def Let_def)

lemma item_label_className_listItem:
  "item_label_className (listItem p option) =
     (if truthy_string (id_prop p) \<and> custom p
      then classNames [Some (labelClassName p),
             and_class (contains (opt_value option) (value_prop p)) (labelCheckedClassName p)]
      else classNames [Some ''form-check-label'', Some (labelClassName p),
             and_class (contains (opt_value option) (value_prop p)) (labelCheckedClassName p)])"
  by (simp add: listItem_def Let_def)

lemma Boolean_iff: "Boolean b = (b = Some True)"
  by (cases b) (simp_all add: Boolean_def)

section \<open>The claims\<close>

text \<open>
  C1. Activating an option's control, in either rendering mode, calls \<^verbatim>\<open>setProps\<close> with
  the whole new selection: the current selection without the option's value when that
  value is in it, and the current selection with the value appended at the end otherwise.
\<close>

theorem toggle_reports_full_replacement:
  assumes "setProps p = Some f"
  shows "item_onChange (listItem p option) =
           Inr (f \<lparr>new_value =
                    (if opt_value option \<in> set (value_prop p)
                     then filter (\<lambda>x. x \<noteq> opt_value option) (value_prop p)
                     else value_prop p @ [opt_value option])\<rparr>)"
  using assms by (simp add: item_onChange_listItem onChange_def newValue_eq)

text \<open>
  The example of the specification: options A (value 1) and B (value 2), selection [1].
  Toggling B reports [1, 2]; toggling A on that selection reports [2].
\<close>

theorem toggle_reports_full_replacement_witness:
  "setProps example_props = Some new_value
   \<and> item_onChange (listItem example_props option_B) = Inr [Num 1, Num 2]
   \<and> setProps (example_props_custom \<lparr>value_prop := [Num 1, Num 2]\<rparr>) = Some new_value
   \<and> item_onChange (listItem (example_props_custom \<lparr>value_prop := [Num 1, Num 2]\<rparr>) option_A)
       = Inr [Num 2]"
proof -
  have h1: "setProps example_props = Some new_value"
    by (simp add: example_props_def)
  have h2: "setProps (example_props_custom \<lparr>value_prop := [Num 1, Num 2]\<rparr>) = Some new_value"
    by (simp add: example_props_custom_def example_props_def)
  show ?thesis
    using h1 h2
      toggle_reports_full_replacement [OF h1, where option = option_B]
      toggle_reports_full_replacement [OF h2, where option = option_A]
    by (simp add: example_props_custom_def example_props_def default_props_def
        option_A_def option_B_def)
qed

text \<open>
  C2. In both rendering modes the input is checked exactly when the option's value is a
  member of the selection.
\<close>

theorem checked_iff_member:
  "(case listItem p option of
      CustomInput c \<Rightarrow> ci_checked c = (opt_value option \<in> set (value_prop p))
    | NativeRow r \<Rightarrow> input_checked r = (opt_value option \<in> set (value_prop p)))"
  by (simp add: listItem_def Let_def contains_iff_member)

theorem checked_iff_member_witness:
  "item_checked (listItem example_props option_A)
   \<and> \<not> item_checked (listItem example_props option_B)
   \<and> item_checked (listItem example_props_custom option_A)
   \<and> \<not> item_checked (listItem example_props_custom option_B)"
  using checked_iff_member [where p = example_props and option = option_A]
    checked_iff_member [where p = example_props and option = option_B]
    checked_iff_member [where p = example_props_custom and option = option_A]
    checked_iff_member [where p = example_props_custom and option = option_B]
  by (simp add: listItem_def Let_def example_props_custom_def example_props_def
      default_props_def option_A_def option_B_def truthy_string_def)

text \<open>
  C3. \<^verbatim>\<open>listItem\<close> takes the custom path exactly when an identifier is supplied, is not
  the empty string, and the custom flag is on; in every other case it takes the native
  path, in particular when the identifier is absent and the flag is on.
\<close>

theorem custom_path_iff_id_and_custom:
  "is_custom_input (listItem p option) = ((\<exists>s. id_prop p = Some s \<and> s \<noteq> []) \<and> custom p)
   \<and> is_native_row (listItem p option) = (\<not> ((\<exists>s. id_prop p = Some s \<and> s \<noteq> []) \<and> custom p))
   \<and> (id_prop p = None \<and> custom p \<longrightarrow> is_native_row (listItem p option))"
  by (auto simp add: is_custom_input_listItem is_native_row_listItem truthy_string_iff)

theorem custom_path_iff_id_and_custom_witness:
  "id_prop example_props = None \<and> custom example_props
   \<and> is_native_row (listItem example_props option_A)
   \<and> is_custom_input (listItem example_props_custom option_A)
   \<and> is_native_row (listItem (example_props_custom \<lparr>custom := False\<rparr>) option_A)
   \<and> is_native_row (listItem (example_props_custom \<lparr>id_prop := Some []\<rparr>) option_A)"
  using custom_path_iff_id_and_custom [where p = example_props and option = option_A]
    custom_path_iff_id_and_custom [where p = example_props_custom and option = option_A]
    custom_path_iff_id_and_custom
      [where p = "example_props_custom \<lparr>custom := False\<rparr>" and option = option_A]
    custom_path_iff_id_and_custom
      [where p = "example_props_custom \<lparr>id_prop := Some []\<rparr>" and option = option_A]
  by (simp add: example_props_custom_def example_props_def default_props_def)

text \<open>
  C4. On a selection whose values are unique, as the specification expects: toggling a
  checked option deletes the one occurrence of its value, the first, and nothing else,
  and the untouched elements keep their order; toggling an unchecked option appends its
  value once, after the existing elements, which keep their order. The new selection
  again has unique values.
\<close>

theorem toggle_removes_occurrence_keeps_order:
  assumes "distinct (value_prop p)" and "setProps p = Some f"
  shows "item_onChange (listItem p option) = Inr (f \<lparr>new_value = newValue p option\<rparr>)
    \<and> (opt_value option \<in> set (value_prop p) \<longrightarrow>
          newValue p option = remove1 (opt_value option) (value_prop p)
          \<and> Suc (length (newValue p option)) = length (value_prop p)
          \<and> opt_value option \<notin> set (newValue p option)
          \<and> newValue p option = filter (\<lambda>x. x \<noteq> opt_value option) (value_prop p)
          \<and> subseq (newValue p option) (value_prop p))
    \<and> (opt_value option \<notin> set (value_prop p) \<longrightarrow>
          newValue p option = value_prop p @ [opt_value option]
          \<and> count_list (newValue p option) (opt_value option) = 1)
    \<and> distinct (newValue p option)"
proof (intro conjI impI)
  show "item_onChange (listItem p option) = Inr (f \<lparr>new_value = newValue p option\<rparr>)"
    using assms(2) by (simp add: item_onChange_listItem onChange_def)
next
  assume m: "opt_value option \<in> set (value_prop p)"
  then show fl: "newValue p option = filter (\<lambda>x. x \<noteq> opt_value option) (value_prop p)"
    by (simp add: newValue_eq)
  with assms(1) show eq: "newValue p option = remove1 (opt_value option) (value_prop p)"
    by (simp add: filter_neq_distinct)
  from m have "length (value_prop p) \<noteq> 0"
    by auto
  with m show "Suc (length (newValue p option)) = length (value_prop p)"
    by (simp add: eq length_remove1)
  show "opt_value option \<notin> set (newValue p option)"
    by (simp add: fl)
  show "subseq (newValue p option) (value_prop p)"
    by (simp add: fl)
next
  assume n: "opt_value option \<notin> set (value_prop p)"
  then show eq: "newValue p option = value_prop p @ [opt_value option]"
    by (simp add: newValue_eq)
  from n show "count_list (newValue p option) (opt_value option) = 1"
    by (simp add: eq count_list_0_iff)
next
  from assms(1) show "distinct (newValue p option)"
    by (simp add: newValue_eq)
qed

theorem toggle_removes_occurrence_keeps_order_witness:
  "distinct (value_prop two_selected_props)
   \<and> setProps two_selected_props = Some new_value
   \<and> opt_value option_A \<in> set (value_prop two_selected_props)
   \<and> item_onChange (listItem two_selected_props option_A) = Inr [Num 2]
   \<and> opt_value option_B \<in> set (value_prop two_selected_props)
   \<and> item_onChange (listItem two_selected_props option_B) = Inr [Num 1]
   \<and> opt_value option_C \<notin> set (value_prop two_selected_props)
   \<and> item_onChange (listItem two_selected_props option_C) = Inr [Num 2, Num 1, Str ''c'']"
proof -
  have d: "distinct (value_prop two_selected_props)"
    by (simp add: two_selected_props_def)
  have h: "setProps two_selected_props = Some new_value"
    by (simp add: two_selected_props_def example_props_def)
  have v: "value_prop two_selected_props = [Num 2, Num 1]"
    by (simp add: two_selected_props_def)
  show ?thesis
    using d h
      toggle_removes_occurrence_keeps_order [OF d h, where option = option_A]
      toggle_removes_occurrence_keeps_order [OF d h, where option = option_B]
      toggle_removes_occurrence_keeps_order [OF d h, where option = option_C]
    by (simp add: v option_A_def option_B_def option_C_def)
qed

text \<open>
  C5. \<^verbatim>\<open>render\<close> produces one item for each option, in the order of the options: the
  item at each position is \<^verbatim>\<open>listItem\<close> of the option at that position, and carries that
  option's value as its key and that option's label.
\<close>

theorem render_one_item_per_option_in_order:
  "length (children (render p)) = length (options p)
   \<and> (\<forall>i < length (options p). children (render p) ! i = listItem p (options p ! i))
   \<and> map item_key (children (render p)) = map opt_value (options p)
   \<and> map item_label (children (render p)) = map opt_label (options p)"
  by (simp add: render_def Let_def comp_def item_key_listItem item_label_listItem)

theorem render_one_item_per_option_in_order_witness:
  "length (options example_props) = 2
   \<and> length (children (render example_props)) = 2
   \<and> children (render example_props) ! 0 = listItem example_props option_A
   \<and> children (render example_props) ! 1 = listItem example_props option_B
   \<and> map item_key (children (render example_props)) = [Num 1, Num 2]
   \<and> map item_label (children (render example_props)) = [Str ''A'', Str ''B'']"
proof -
  have opts: "options example_props = [option_A, option_B]"
    by (simp add: example_props_def default_props_def)
  show ?thesis
    using render_one_item_per_option_in_order [of example_props]
    by (simp add: opts option_A_def option_B_def)
qed

text \<open>
  C6. In both rendering modes the input is disabled exactly when the option's
  \<^verbatim>\<open>disabled\<close> field is true, whatever the selection is: an option whose field is false
  or absent renders an enabled input.
\<close>

theorem disabled_iff_option_disabled:
  "(case listItem p option of
      CustomInput c \<Rightarrow> ci_disabled c = (opt_disabled option = Some True)
    | NativeRow r \<Rightarrow> input_disabled r = (opt_disabled option = Some True))"
  by (simp add: listItem_def Let_def Boolean_iff)

theorem disabled_iff_option_disabled_witness:
  "item_disabled (listItem example_props option_C)
   \<and> item_disabled (listItem (example_props \<lparr>value_prop := [Str ''c'']\<rparr>) option_C)
   \<and> item_disabled (listItem example_props_custom option_C)
   \<and> \<not> item_disabled (listItem example_props option_A)
   \<and> \<not> item_disabled (listItem example_props_custom (option_A \<lparr>opt_disabled := Some False\<rparr>))"
  using disabled_iff_option_disabled [where p = example_props and option = option_C]
    disabled_iff_option_disabled
      [where p = "example_props \<lparr>value_prop := [Str ''c'']\<rparr>" and option = option_C]
    disabled_iff_option_disabled [where p = example_props_custom and option = option_C]
    disabled_iff_option_disabled [where p = example_props and option = option_A]
    disabled_iff_option_disabled
      [where p = example_props_custom and option = "option_A \<lparr>opt_disabled := Some False\<rparr>"]
  by (simp add: listItem_def Let_def example_props_custom_def example_props_def
      default_props_def option_A_def option_C_def truthy_string_def)

text \<open>
  C7. In both rendering modes the label's style is the base label style when the option
  is unchecked and, when it is checked, the base label style overridden key by key by the
  checked-label style. The label's class is made of the base label class and, exactly
  when the option is checked, the checked-label class; the custom branch hands this to
  the sub-component, and the native branch puts the class \<^verbatim>\<open>form-check-label\<close> in front.
\<close>

theorem label_style_and_class_follow_checked:
  "item_label_style (listItem p option) k =
     (if opt_value option \<in> set (value_prop p)
      then (case labelCheckedStyle p of
              None \<Rightarrow> labelStyle p k
            | Some cs \<Rightarrow> (case cs k of None \<Rightarrow> labelStyle p k | Some x \<Rightarrow> Some x))
      else labelStyle p k)
   \<and> (case listItem p option of
        CustomInput c \<Rightarrow>
          ci_labelClassName c =
            classNames [Some (labelClassName p),
              if opt_value option \<in> set (value_prop p) then labelCheckedClassName p else None]
      | NativeRow r \<Rightarrow>
          label_className r =
            classNames [Some ''form-check-label'', Some (labelClassName p),
              if opt_value option \<in> set (value_prop p) then labelCheckedClassName p else None])"
proof
  show "item_label_style (listItem p option) k =
     (if opt_value option \<in> set (value_prop p)
      then (case labelCheckedStyle p of
              None \<Rightarrow> labelStyle p k
            | Some cs \<Rightarrow> (case cs k of None \<Rightarrow> labelStyle p k | Some x \<Rightarrow> Some x))
      else labelStyle p k)"
    by (simp add: item_label_style_listItem contains_iff_member spread_def map_add_def
        split: option.split)
next
  show "case listItem p option of
        CustomInput c \<Rightarrow>
          ci_labelClassName c =
            classNames [Some (labelClassName p),
              if opt_value option \<in> set (value_prop p) then labelCheckedClassName p else None]
      | NativeRow r \<Rightarrow>
          label_className r =
            classNames [Some ''form-check-label'', Some (labelClassName p),
              if opt_value option \<in> set (value_prop p) then labelCheckedClassName p else None]"
    by (simp add: listItem_def Let_def contains_iff_member and_class_def)
qed

theorem label_style_and_class_follow_checked_witness:
  "item_label_style (listItem styled_props option_A) ''color'' = Some (Str ''green'')
   \<and> item_label_style (listItem styled_props option_A) ''margin'' = Some (Num 0)
   \<and> item_label_style (listItem styled_props option_B) ''color'' = Some (Str ''black'')
   \<and> item_label_style (listItem styled_props_custom option_A) ''color'' = Some (Str ''green'')
   \<and> item_label_className (listItem styled_props option_A) = ''form-check-label lbl on''
   \<and> item_label_className (listItem styled_props option_B) = ''form-check-label lbl''
   \<and> item_label_className (listItem styled_props_custom option_A) = ''lbl on''
   \<and> item_label_className (listItem styled_props_custom option_B) = ''lbl''"
  using
    label_style_and_class_follow_checked
      [where p = styled_props and option = option_A and k = "''color''"]
    label_style_and_class_follow_checked
      [where p = styled_props and option = option_A and k = "''margin''"]
    label_style_and_class_follow_checked
      [where p = styled_props and option = option_B and k = "''color''"]
    label_style_and_class_follow_checked
      [where p = styled_props_custom and option = option_A and k = "''color''"]
    label_style_and_class_follow_checked
      [where p = styled_props_custom and option = option_B and k = "''color''"]
  by (simp add: listItem_def Let_def styled_props_custom_def styled_props_def
      example_props_def default_props_def option_A_def option_B_def truthy_string_def
      classNames_def truthy_classes_def)

text \<open>
  C7 as stated fails in the native branch: with base label class \<^verbatim>\<open>lbl\<close> and an unchecked
  option the label's class is \<^verbatim>\<open>form-check-label lbl\<close>, not the base class alone.
\<close>

theorem native_label_class_counterexample:
  "is_native_row (listItem styled_props option_B)
   \<and> \<not> item_checked (listItem styled_props option_B)
   \<and> item_label_className (listItem styled_props option_B) = ''form-check-label lbl''
   \<and> item_label_className (listItem styled_props option_B)
       \<noteq> classNames [Some (labelClassName styled_props),
             and_class (item_checked (listItem styled_props option_B))
               (labelCheckedClassName styled_props)]"
  by (simp add: listItem_def Let_def styled_props_def example_props_def default_props_def
      option_B_def truthy_string_def contains_iff_member classNames_def truthy_classes_def
      and_class_def)

text \<open>
  C8. The root element's \<^verbatim>\<open>data-dash-is-loading\<close> attribute is \<^verbatim>\<open>true\<close> exactly when a
  loading state is supplied and its \<^verbatim>\<open>is_loading\<close> field is true; in every other case
  it is \<^verbatim>\<open>undefined\<close>.
\<close>

theorem loading_attribute_iff_is_loading:
  "data_dash_is_loading (render p) =
     (if \<exists>ls. loading_state p = Some ls \<and> is_loading ls = Some True then Some True else None)
   \<and> (data_dash_is_loading (render p) \<noteq> None) =
       (\<exists>ls. loading_state p = Some ls \<and> is_loading ls = Some True)"
  by (auto simp add: render_def Let_def loading_marker_def Boolean_iff split: option.splits)

theorem loading_attribute_iff_is_loading_witness:
  "data_dash_is_loading (render loading_props) = Some True
   \<and> data_dash_is_loading (render idle_props) = None
   \<and> data_dash_is_loading (render example_props) = None
   \<and> data_dash_is_loading
       (render (example_props
          \<lparr>loading_state :=
             Some \<lparr>is_loading = None, prop_name = None, component_name = None\<rparr>\<rparr>)) = None"
  using loading_attribute_iff_is_loading [of loading_props]
    loading_attribute_iff_is_loading [of idle_props]
    loading_attribute_iff_is_loading [of example_props]
    loading_attribute_iff_is_loading
      [of "example_props
          \<lparr>loading_state :=
             Some \<lparr>is_loading = None, prop_name = None, component_name = None\<rparr>\<rparr>"]
  by (simp add: loading_props_def idle_props_def example_props_def default_props_def)

text \<open>
  C9. The handler does not write to the selection array it was given. Run on a store in
  which \<^verbatim>\<open>this.props.value\<close> is the array at address \<open>va\<close>, it returns: that array, and
  every other array of the store, is afterwards what it was, and the array handed to
  \<^verbatim>\<open>setProps\<close> is at an address that was not in the store before, so it is a new array
  and not the host's. The new array holds what \<^verbatim>\<open>newValue\<close> computes.
\<close>

theorem toggle_leaves_selection_array_unchanged:
  assumes "deref s va = Some list"
  shows "\<exists>a' s'. onChange_store v va s = Some (a', s')
           \<and> deref s' va = Some list
           \<and> (\<forall>b < length s. deref s' b = deref s b)
           \<and> a' \<noteq> va
           \<and> deref s a' = None
           \<and> deref s' a' =
               Some (if v \<in> set list then filter (\<lambda>x. x \<noteq> v) list else list @ [v])
           \<and> deref s' a' =
               Some (newValue (p \<lparr>value_prop := list\<rparr>) (option \<lparr>opt_value := v\<rparr>))"
proof -
  from assms have va: "va < length s" and l: "s ! va = list"
    by (simp_all add: deref_def split: if_splits)
  show ?thesis
  proof (cases "v \<in> set list")
    case True
    have run: "onChange_store v va s =
                 Some (Suc (length s), s @ [[v]] @ [filter (\<lambda>x. x \<noteq> v) list])"
      using va l True
      by (simp add: onChange_store_def without_store_def deref_def alloc_def
          contains_iff_member without_single nth_append)
    show ?thesis
      using va l True
      by (simp add: run deref_def nth_append newValue_eq)
  next
    case False
    have run: "onChange_store v va s = Some (length s, s @ [list @ [v]])"
      using va l False
      by (simp add: onChange_store_def append_store_def deref_def alloc_def
          contains_iff_member append_ramda_def)
    show ?thesis
      using va l False
      by (simp add: run deref_def nth_append newValue_eq)
  qed
qed

theorem toggle_leaves_selection_array_unchanged_witness:
  "deref example_store 1 = Some [Num 1]
   \<and> onChange_store (Num 1) 1 example_store
       = Some (3, [[Str ''other''], [Num 1], [Num 1], []])
   \<and> onChange_store (Num 2) 1 example_store
       = Some (2, [[Str ''other''], [Num 1], [Num 1, Num 2]])"
proof -
  have h: "deref example_store 1 = Some [Num 1]"
    by (simp add: example_store_def deref_def)
  show ?thesis
    using h
      toggle_leaves_selection_array_unchanged [OF h, where v = "Num 1"]
      toggle_leaves_selection_array_unchanged [OF h, where v = "Num 2"]
    by (simp add: example_store_def onChange_store_def without_store_def append_store_def
        deref_def alloc_def contains_def without_def reject_def append_ramda_def)
qed

text \<open>
  C10. When the selection does not hold an option's value, toggling the option and then,
  with the reported selection as the new \<^verbatim>\<open>value\<close> prop, toggling it again reports the
  original selection.
\<close>

theorem toggle_twice_from_unchecked_restores:
  assumes "opt_value option \<notin> set (value_prop p)" and "setProps p = Some f"
  shows "item_onChange (listItem p option) = Inr (f \<lparr>new_value = newValue p option\<rparr>)
    \<and> item_onChange (listItem (p \<lparr>value_prop := newValue p option\<rparr>) option)
        = Inr (f \<lparr>new_value = value_prop p\<rparr>)"
proof -
  from assms(1) have first: "newValue p option = value_prop p @ [opt_value option]"
    by (simp add: newValue_eq)
  from assms(1)
  have second: "newValue (p \<lparr>value_prop := value_prop p @ [opt_value option]\<rparr>) option
                  = value_prop p"
    by (simp add: newValue_eq filter_neq_absent)
  show ?thesis
    using assms(2) by (simp add: item_onChange_listItem onChange_def first second)
qed

theorem toggle_twice_from_unchecked_restores_witness:
  "opt_value option_B \<notin> set (value_prop example_props)
   \<and> setProps example_props = Some new_value
   \<and> item_onChange (listItem example_props option_B) = Inr [Num 1, Num 2]
   \<and> item_onChange (listItem (example_props \<lparr>value_prop := [Num 1, Num 2]\<rparr>) option_B)
       = Inr [Num 1]"
proof -
  have h1: "opt_value option_B \<notin> set (value_prop example_props)"
    by (simp add: example_props_def default_props_def option_B_def)
  have h2: "setProps example_props = Some new_value"
    by (simp add: example_props_def)
  have nv: "newValue example_props option_B = [Num 1, Num 2]"
    by (simp add: newValue_eq example_props_def default_props_def option_B_def)
  show ?thesis
    using h1 h2 toggle_twice_from_unchecked_restores [OF h1 h2, unfolded nv]
    by (simp add: example_props_def default_props_def)
qed

end
